theory Spec2Isabelle
  imports Complex_Main
begin

section \<open>Zeus forecast dashboard: embedding of \<open>streamlit_app.py\<close>\<close>

text \<open>
  The script is modelled function by function. Python floats are idealised as
  \<^typ>\<open>real\<close>: rounding and overflow of IEEE doubles are outside the model, every
  arithmetic operation is the exact one. A JSON sample that may be \<open>null\<close> is a
  \<^typ>\<open>real option\<close>, \<open>None\<close> being Python's \<open>None\<close>. An exception raised by the
  script is the \<open>Inl\<close> branch of a sum type.
\<close>

subsection \<open>Exceptions and numeric primitives of Python\<close>

datatype error = TypeError | ValueError | IndexError

type_synonym sample = "real option"

text \<open>\<open>math.degrees\<close>.\<close>

definition degrees :: "real \<Rightarrow> real" where
  "degrees x = x * 180 / pi"

text \<open>
  \<open>math.atan2(y, x)\<close> on reals: the angle in \<open>(-pi, pi]\<close> of the point \<open>(x, y)\<close>,
  with \<open>atan2(0, 0) = 0\<close> as the C library gives for positive zeros.
\<close>

definition atan2 :: "real \<Rightarrow> real \<Rightarrow> real" where
  "atan2 y x =
     (if 0 < x then arctan (y / x)
      else if x < 0 then (if 0 \<le> y then arctan (y / x) + pi else arctan (y / x) - pi)
      else if 0 < y then pi / 2
      else if y < 0 then - (pi / 2)
      else 0)"

text \<open>
  Python's \<open>x % m\<close> on floats, for a divisor \<open>m > 0\<close> (the script only divides by the
  literal 360): the result has the sign of the divisor.
\<close>

definition py_fmod :: "real \<Rightarrow> real \<Rightarrow> real" where
  "py_fmod x m = x - m * of_int \<lfloor>x / m\<rfloor>"

text \<open>Python's one-argument \<open>round\<close>: to the nearest integer, ties to the even one.\<close>

definition py_round :: "real \<Rightarrow> int" where
  "py_round x =
     (let f = \<lfloor>x\<rfloor>; d = x - of_int f
      in if d < 1 / 2 then f
         else if 1 / 2 < d then f + 1
         else if even f then f else f + 1)"

text \<open>
  The subscript \<open>xs[i]\<close> of a Python list of length \<open>n\<close>: indices \<open>0 .. n - 1\<close>
  read from the front, \<open>-n .. -1\<close> from the back, any other raises \<open>IndexError\<close>.
\<close>

definition py_index :: "'a list \<Rightarrow> int \<Rightarrow> error + 'a" where
  "py_index xs i =
     (if 0 \<le> i \<and> i < int (length xs) then Inr (xs ! nat i)
      else if i < 0 \<and> - int (length xs) \<le> i then Inr (xs ! nat (int (length xs) + i))
      else Inl IndexError)"

subsection \<open>Unit conversion: \<open>wind_speed_direction\<close> and \<open>deg_to_compass\<close>\<close>

text \<open>
  \<open>u**2\<close> is evaluated first; with \<open>None\<close> for \<open>u\<close> or \<open>v\<close> the power raises
  \<open>TypeError\<close>. \<open>math.sqrt\<close> never sees a negative argument here.
\<close>

fun wind_speed_direction :: "sample \<Rightarrow> sample \<Rightarrow> error + (real \<times> real)" where
  "wind_speed_direction (Some u) (Some v) =
     (let speed_ms = sqrt (u ^ 2 + v ^ 2);
          speed_knots = speed_ms * 1.94384;
          direction_deg = py_fmod (degrees (atan2 u v) + 180) 360
      in Inr (speed_knots, direction_deg))"
| "wind_speed_direction _ _ = Inl TypeError"

definition dirs :: "string list" where
  "dirs = [''N'', ''NNE'', ''NE'', ''ENE'', ''E'', ''ESE'', ''SE'', ''SSE'',
           ''S'', ''SSW'', ''SW'', ''WSW'', ''W'', ''WNW'', ''NW'', ''NNW'']"

definition deg_to_compass :: "real \<Rightarrow> error + string" where
  "deg_to_compass deg =
     (let ix = py_round (deg / 22.5) mod 16
      in py_index dirs ix)"

text \<open>The comprehensions of the temperature and the precipitation tab.\<close>

definition temps_c_of :: "sample list \<Rightarrow> sample list" where
  "temps_c_of temps_raw =
     map (\<lambda>t. if t \<noteq> None then Some (the t - 273.15) else None) temps_raw"

definition vals_mm_of :: "sample list \<Rightarrow> sample list" where
  "vals_mm_of vals_raw =
     map (\<lambda>v. if v \<noteq> None then Some (the v * 1000) else None) vals_raw"

subsection \<open>Text rendering\<close>

text \<open>\<open>str(n)\<close> of a Python integer, as an f-string renders it.\<close>

definition digit_char :: "nat \<Rightarrow> char" where
  "digit_char k = ''0123456789'' ! k"

fun digits :: "nat \<Rightarrow> string" where
  "digits n =
     (if n < 10 then [digit_char n]
      else digits (n div 10) @ [digit_char (n mod 10)])"

declare digits.simps [simp del]

definition str_int :: "int \<Rightarrow> string" where
  "str_int i = (if i < 0 then CHR ''-'' # digits (nat (- i)) else digits (nat i))"

text \<open>A field of \<open>strftime\<close> padded to two digits (\<open>%d\<close>, \<open>%H\<close>, \<open>%M\<close>).\<close>

definition two_digits :: "nat \<Rightarrow> string" where
  "two_digits n = [digit_char (n div 10 mod 10), digit_char (n mod 10)]"

subsection \<open>The part of \<open>datetime\<close> the script uses\<close>

text \<open>
  A \<open>datetime\<close> is the reading of its calendar and clock, counted in seconds from
  1970-01-01T00:00:00 of the same calendar, and its time zone: \<open>None\<close> for a naive
  value, else the offset from UTC in seconds and the zone's name. The instant an
  aware value names is its reading minus its offset.
\<close>

record datetime =
  wall :: int
  tz :: "(int \<times> string) option"

text \<open>
  The executing machine's local zone, taken as one fixed offset (a zone that changes
  its offset over the year is outside the model).
\<close>

record tzenv =
  local_offset :: int
  local_name :: string

text \<open>Days between 1970-01-01 and a date of the proleptic Gregorian calendar, and back.\<close>

definition days_from_civil :: "int \<Rightarrow> int \<Rightarrow> int \<Rightarrow> int" where
  "days_from_civil y m d =
     (let y' = (if m \<le> 2 then y - 1 else y);
          era = y' div 400;
          yoe = y' - era * 400;
          doy = (153 * (if 2 < m then m - 3 else m + 9) + 2) div 5 + d - 1;
          doe = yoe * 365 + yoe div 4 - yoe div 100 + doy
      in era * 146097 + doe - 719468)"

definition civil_from_days :: "int \<Rightarrow> int \<times> int \<times> int" where
  "civil_from_days z0 =
     (let z = z0 + 719468;
          era = z div 146097;
          doe = z - era * 146097;
          yoe = (doe - doe div 1460 + doe div 36524 - doe div 146096) div 365;
          doy = doe - (365 * yoe + yoe div 4 - yoe div 100);
          mp = (5 * doy + 2) div 153;
          d = doy - (153 * mp + 2) div 5 + 1;
          m = (if mp < 10 then mp + 3 else mp - 9);
          y = yoe + era * 400 + (if m \<le> 2 then 1 else 0)
      in (y, m, d))"

definition is_leap :: "int \<Rightarrow> bool" where
  "is_leap y = (y mod 4 = 0 \<and> (y mod 100 \<noteq> 0 \<or> y mod 400 = 0))"

definition days_in_month :: "int \<Rightarrow> int \<Rightarrow> int" where
  "days_in_month y m =
     (if m = 2 then (if is_leap y then 29 else 28)
      else if m \<in> {4, 6, 9, 11} then 30 else 31)"

text \<open>The decimal number written by a string of digits, \<open>None\<close> if a character is no digit.\<close>

definition digit_of :: "char \<Rightarrow> nat option" where
  "digit_of c = map_of (zip ''0123456789'' [0, 1, 2, 3, 4, 5, 6, 7, 8, 9]) c"

fun number_of :: "nat \<Rightarrow> string \<Rightarrow> nat option" where
  "number_of acc [] = Some acc"
| "number_of acc (c # cs) =
     (case digit_of c of None \<Rightarrow> None | Some k \<Rightarrow> number_of (10 * acc + k) cs)"

definition field :: "nat \<Rightarrow> nat \<Rightarrow> string \<Rightarrow> nat option" where
  "field i n s = number_of 0 (take n (drop i s))"

text \<open>
  The zone designator after the seconds: nothing (a naive value), \<open>Z\<close> (UTC, accepted
  from Python 3.11 on), or \<open>+HH:MM\<close> / \<open>-HH:MM\<close>.
\<close>

definition parse_zone :: "string \<Rightarrow> error + (int \<times> string) option" where
  "parse_zone z =
     (if z = [] then Inr None
      else if z = ''Z'' then Inr (Some (0, ''UTC''))
      else if length z = 6 \<and> z ! 0 \<in> {CHR ''+'', CHR ''-''} \<and> z ! 3 = CHR '':'' then
        (case (field 1 2 z, field 4 2 z) of
           (Some h, Some m) \<Rightarrow>
             if h < 24 \<and> m < 60 then
               (let secs = int (h * 3600 + m * 60);
                    off = (if z ! 0 = CHR ''-'' then - secs else secs)
                in Inr (Some (off, if off = 0 then ''UTC'' else ''UTC'' @ z)))
             else Inl ValueError
         | _ \<Rightarrow> Inl ValueError)
      else Inl ValueError)"

text \<open>
  \<open>datetime.fromisoformat\<close> on the shape the API's timestamps have: a date, one
  separator character, the time to the second, and a zone designator or none.
  Anything else is a \<open>ValueError\<close> here; the further shapes Python also reads
  (no seconds, fractions of a second) are not modelled.
\<close>

definition parse_date :: "string \<Rightarrow> int option" where
  "parse_date s =
     (case field 0 4 s of None \<Rightarrow> None | Some y \<Rightarrow>
      (case field 5 2 s of None \<Rightarrow> None | Some mo \<Rightarrow>
       (case field 8 2 s of None \<Rightarrow> None | Some d \<Rightarrow>
          if 1 \<le> y \<and> 1 \<le> mo \<and> mo \<le> 12 \<and> 1 \<le> d
             \<and> int d \<le> days_in_month (int y) (int mo)
          then Some (days_from_civil (int y) (int mo) (int d)) else None)))"

definition parse_time :: "string \<Rightarrow> int option" where
  "parse_time s =
     (case field 11 2 s of None \<Rightarrow> None | Some h \<Rightarrow>
      (case field 14 2 s of None \<Rightarrow> None | Some mi \<Rightarrow>
       (case field 17 2 s of None \<Rightarrow> None | Some sec \<Rightarrow>
          if h < 24 \<and> mi < 60 \<and> sec < 60
          then Some (int (h * 3600 + mi * 60 + sec)) else None)))"

definition fromisoformat :: "string \<Rightarrow> error + datetime" where
  "fromisoformat s =
     (if 19 \<le> length s \<and> s ! 4 = CHR ''-'' \<and> s ! 7 = CHR ''-''
         \<and> s ! 13 = CHR '':'' \<and> s ! 16 = CHR '':'' then
        (case parse_date s of None \<Rightarrow> Inl ValueError | Some days \<Rightarrow>
         (case parse_time s of None \<Rightarrow> Inl ValueError | Some secs \<Rightarrow>
          (case parse_zone (drop 19 s) of Inl e \<Rightarrow> Inl e | Inr z \<Rightarrow>
             Inr \<lparr>wall = days * 86400 + secs, tz = z\<rparr>)))
      else Inl ValueError)"

text \<open>
  \<open>dt.astimezone()\<close> without an argument: the same instant in the local zone. A naive
  value is presumed to be local time already, so its reading is kept.
\<close>

definition astimezone :: "tzenv \<Rightarrow> datetime \<Rightarrow> datetime" where
  "astimezone env dt =
     (case tz dt of
        None \<Rightarrow> \<lparr>wall = wall dt, tz = Some (local_offset env, local_name env)\<rparr>
      | Some (off, _) \<Rightarrow>
          \<lparr>wall = wall dt - off + local_offset env,
           tz = Some (local_offset env, local_name env)\<rparr>)"

definition month_abbr :: "string list" where
  "month_abbr = [''Jan'', ''Feb'', ''Mar'', ''Apr'', ''May'', ''Jun'',
                 ''Jul'', ''Aug'', ''Sep'', ''Oct'', ''Nov'', ''Dec'']"

text \<open>\<open>strftime("%d-%b %H:%M")\<close> in the C locale.\<close>

definition strftime_dbHM :: "datetime \<Rightarrow> string" where
  "strftime_dbHM dt =
     (let days = wall dt div 86400;
          secs = wall dt mod 86400;
          (y, m, d) = civil_from_days days
      in two_digits (nat d) @ ''-'' @ month_abbr ! nat (m - 1) @ '' ''
         @ two_digits (nat (secs div 3600)) @ '':'' @ two_digits (nat (secs mod 3600 div 60)))"

text \<open>\<open>strftime("%d-%b %H:%M %Z")\<close>: \<open>%Z\<close> is the zone's name, empty for a naive value.\<close>

definition strftime_dbHMZ :: "datetime \<Rightarrow> string" where
  "strftime_dbHMZ dt =
     strftime_dbHM dt @ '' '' @ (case tz dt of None \<Rightarrow> [] | Some (_, name) \<Rightarrow> name)"

subsection \<open>The HTTP boundary and the page\<close>

text \<open>
  What \<open>requests.get\<close> returns: the status code, the body as text (\<open>r.text\<close>), and the body as
  \<open>r.json()\<close> decodes it. A decoded forecast is an object with the key \<open>hourly\<close>,
  whose \<open>time\<close> key may be missing and whose other keys are the series by
  variable name. Such an object is never empty, so it is truthy in \<open>if data:\<close>.
\<close>

record 'a response =
  status_code :: int
  body_text :: string
  json :: 'a

record hourly_block =
  time_col :: "string list option"
  series :: "string \<rightharpoonup> sample list"

record forecast =
  hourly :: hourly_block

record request =
  authorization :: string
  latitude :: real
  longitude :: real
  hourly_var :: string
  start_datetime :: int
  end_datetime :: int

text \<open>
  The calls of \<open>st.*\<close>, in the order the script makes them. Texts are kept where
  a property reads them (without the pictographs); a figure is its data; the
  formatted "latest forecast" lines are their arguments.
\<close>

datatype ui =
    Subheader string
  | Error string
  | Warning string
  | Info string
  | Success string
  | Pyplot "string list" "sample list" string
  | Latest_forecast real string
  | Compass_plot real string
  | Latest_wind real real string string

text \<open>
  The sidebar's inputs and the clock: \<open>api_key\<close>, \<open>lat\<close>, \<open>lon\<close>, \<open>hours\<close> and
  \<open>datetime.utcnow()\<close> (a reading in seconds).
\<close>

record inputs =
  api_key :: string
  lat :: real
  lon :: real
  hours :: int
  utcnow :: int

definition forecast_request :: "inputs \<Rightarrow> string \<Rightarrow> request" where
  "forecast_request inp variable =
     (let start_time = utcnow inp;
          end_time = start_time + hours inp * 3600
      in \<lparr>authorization = ''Bearer '' @ api_key inp,
          latitude = lat inp, longitude = lon inp, hourly_var = variable,
          start_datetime = start_time, end_datetime = end_time\<rparr>)"

text \<open>The f-string of \<open>st.error\<close> in \<open>fetch_forecast\<close>.\<close>

definition failure_text :: "'a response \<Rightarrow> string" where
  "failure_text r = ''API call failed: '' @ str_int (status_code r) @ '' '' @ body_text r"

definition fetch_forecast ::
  "(request \<Rightarrow> forecast response) \<Rightarrow> inputs \<Rightarrow> string \<Rightarrow> forecast option \<times> ui list" where
  "fetch_forecast http_get inp variable =
     (let r = http_get (forecast_request inp variable)
      in if status_code r = 200 then (Some (json r), [])
         else (None, [Error (failure_text r)]))"

text \<open>The comprehension over \<open>times\<close> in \<open>plot_time_series\<close>; the first bad timestamp raises.\<close>

fun local_times_of :: "tzenv \<Rightarrow> string list \<Rightarrow> error + string list" where
  "local_times_of env [] = Inr []"
| "local_times_of env (t # ts) =
     (case fromisoformat t of
        Inl e \<Rightarrow> Inl e
      | Inr dt \<Rightarrow>
          (case local_times_of env ts of
             Inl e \<Rightarrow> Inl e
           | Inr rest \<Rightarrow> Inr (strftime_dbHM (astimezone env dt) # rest)))"

text \<open>
  \<open>plot_time_series\<close> returns the messages it shows and the pair
  \<open>(local_times, values)\<close>. \<open>ax.plot\<close> raises \<open>ValueError\<close> when the two lists
  differ in length; a \<open>None\<close> among the values is drawn as a gap. The parameter
  \<open>times\<close> of the source is \<open>tms\<close> here and in the tabs (\<open>times\<close> is a constant
  of HOL), and \<open>r.text\<close> is \<open>body_text\<close>; the colour of the line is left out.
\<close>

definition plot_time_series ::
  "tzenv \<Rightarrow> string list \<Rightarrow> sample list \<Rightarrow> string \<Rightarrow> error + (ui list \<times> string list \<times> sample list)" where
  "plot_time_series env tms values ylabel =
     (if tms = [] \<or> values = [] then
        Inr ([Warning ''No data available to plot.''], [], [])
      else
        (case local_times_of env tms of
           Inl e \<Rightarrow> Inl e
         | Inr local_times \<Rightarrow>
             if length local_times \<noteq> length values then Inl ValueError
             else Inr ([Pyplot local_times values ylabel], local_times, values)))"

text \<open>\<open>d.get(key, [])\<close> on the \<open>hourly\<close> object.\<close>

definition get_time :: "forecast \<Rightarrow> string list" where
  "get_time data = (case time_col (hourly data) of None \<Rightarrow> [] | Some ts \<Rightarrow> ts)"

definition get_series :: "forecast \<Rightarrow> string \<Rightarrow> sample list" where
  "get_series data var = (case series (hourly data) var of None \<Rightarrow> [] | Some xs \<Rightarrow> xs)"

text \<open>
  The end of the three scalar tabs: \<open>if vals: st.success(f"... {vals[-1]:.1f} ...")\<close>.
  Formatting \<open>None\<close> with \<open>.1f\<close> or \<open>.0f\<close> raises \<open>TypeError\<close>.
\<close>

definition latest_line :: "string list \<Rightarrow> sample list \<Rightarrow> error + ui list" where
  "latest_line local_times vals =
     (if vals \<noteq> [] then
        (case last vals of
           None \<Rightarrow> Inl TypeError
         | Some x \<Rightarrow> Inr [Latest_forecast x (last local_times)])
      else Inr [])"

definition tab_temperature ::
  "tzenv \<Rightarrow> (request \<Rightarrow> forecast response) \<Rightarrow> inputs \<Rightarrow> error + ui list" where
  "tab_temperature env http_get inp =
     (case fetch_forecast http_get inp ''2m_temperature'' of
        (None, msgs) \<Rightarrow> Inr (Subheader ''Temperature Forecast'' # msgs)
      | (Some data, msgs) \<Rightarrow>
          (let tms = get_time data;
               temps_raw = get_series data ''2m_temperature'';
               temps_c = temps_c_of temps_raw
           in case plot_time_series env tms temps_c ''Temperature (C)'' of
                Inl e \<Rightarrow> Inl e
              | Inr (plot, local_times, vals) \<Rightarrow>
                  (case latest_line local_times vals of
                     Inl e \<Rightarrow> Inl e
                   | Inr line \<Rightarrow>
                       Inr (Subheader ''Temperature Forecast'' # msgs @ plot
                            @ [Info ''Temperature is at 2 m AGL and displayed in C.''] @ line))))"

definition tab_humidity ::
  "tzenv \<Rightarrow> (request \<Rightarrow> forecast response) \<Rightarrow> inputs \<Rightarrow> error + ui list" where
  "tab_humidity env http_get inp =
     (case fetch_forecast http_get inp ''relative_humidity_2m'' of
        (None, msgs) \<Rightarrow> Inr (Subheader ''Humidity Forecast'' # msgs)
      | (Some data, msgs) \<Rightarrow>
          (let tms = get_time data;
               hums = get_series data ''relative_humidity_2m''
           in case plot_time_series env tms hums ''Relative Humidity (%)'' of
                Inl e \<Rightarrow> Inl e
              | Inr (plot, local_times, vals) \<Rightarrow>
                  (case latest_line local_times vals of
                     Inl e \<Rightarrow> Inl e
                   | Inr line \<Rightarrow>
                       Inr (Subheader ''Humidity Forecast'' # msgs @ plot
                            @ [Info ''Humidity is at 2 m AGL and displayed in %.''] @ line))))"

definition tab_precipitation ::
  "tzenv \<Rightarrow> (request \<Rightarrow> forecast response) \<Rightarrow> inputs \<Rightarrow> error + ui list" where
  "tab_precipitation env http_get inp =
     (case fetch_forecast http_get inp ''total_precipitation'' of
        (None, msgs) \<Rightarrow> Inr (Subheader ''Precipitation Forecast'' # msgs)
      | (Some data, msgs) \<Rightarrow>
          (let tms = get_time data;
               vals_raw = get_series data ''total_precipitation'';
               vals_mm = vals_mm_of vals_raw
           in case plot_time_series env tms vals_mm ''Precipitation (mm)'' of
                Inl e \<Rightarrow> Inl e
              | Inr (plot, local_times, vals) \<Rightarrow>
                  (case latest_line local_times vals of
                     Inl e \<Rightarrow> Inl e
                   | Inr line \<Rightarrow>
                       Inr (Subheader ''Precipitation Forecast'' # msgs @ plot
                            @ [Info ''Precipitation is shown as total precipitation in millimetres (mm).'']
                            @ line))))"

text \<open>The loop of the wind tab over \<open>zip(u_vals, v_vals)\<close>, appending to \<open>speeds\<close> and \<open>dirs\<close>.\<close>

fun wind_loop ::
  "real list \<Rightarrow> real list \<Rightarrow> (sample \<times> sample) list \<Rightarrow> error + (real list \<times> real list)" where
  "wind_loop speeds ds [] = Inr (speeds, ds)"
| "wind_loop speeds ds ((uu, vv) # rest) =
     (case wind_speed_direction uu vv of
        Inl e \<Rightarrow> Inl e
      | Inr (speed, d) \<Rightarrow> wind_loop (speeds @ [speed]) (ds @ [d]) rest)"

definition u_var :: string where
  "u_var = ''100m_u_component_of_wind''"

definition v_var :: string where
  "v_var = ''100m_v_component_of_wind''"

definition wind_info :: string where
  "wind_info = ''Wind is shown at 100 m AGL, with speeds in knots (kt) and directions following the meteorological convention (0 = North).''"

definition wind_latest :: "string list \<Rightarrow> sample list \<Rightarrow> real list \<Rightarrow> error + ui list" where
  "wind_latest local_times vals ds =
     (if vals \<noteq> [] \<and> ds \<noteq> [] then
        (let last_dir = last ds
         in case deg_to_compass last_dir of
              Inl e \<Rightarrow> Inl e
            | Inr compass_label \<Rightarrow>
                (case last vals of
                   None \<Rightarrow> Inl TypeError
                 | Some x \<Rightarrow>
                     Inr [Compass_plot last_dir compass_label,
                          Latest_wind x last_dir compass_label (last local_times)]))
      else Inr [])"

definition tab_wind ::
  "tzenv \<Rightarrow> (request \<Rightarrow> forecast response) \<Rightarrow> inputs \<Rightarrow> error + ui list" where
  "tab_wind env http_get inp =
     (case fetch_forecast http_get inp u_var of (u, msgs_u) \<Rightarrow>
      (case fetch_forecast http_get inp v_var of (v, msgs_v) \<Rightarrow>
       (case (u, v) of
          (Some ud, Some vd) \<Rightarrow>
            (let tms = get_time ud;
                 u_vals = get_series ud u_var;
                 v_vals = get_series vd v_var
             in case wind_loop [] [] (zip u_vals v_vals) of
                  Inl e \<Rightarrow> Inl e
                | Inr (speeds, ds) \<Rightarrow>
                    (case plot_time_series env tms (map Some speeds) ''Wind Speed (kt)'' of
                       Inl e \<Rightarrow> Inl e
                     | Inr (plot, local_times, vals) \<Rightarrow>
                         (case wind_latest local_times vals ds of
                            Inl e \<Rightarrow> Inl e
                          | Inr line \<Rightarrow>
                              Inr (Subheader ''Wind Forecast (100 m AGL)'' # msgs_u @ msgs_v @ plot
                                   @ [Info wind_info] @ line))))
        | _ \<Rightarrow> Inr (Subheader ''Wind Forecast (100 m AGL)'' # msgs_u @ msgs_v))))"

subsection \<open>The overview tab: usage of the API key\<close>

text \<open>
  The decoded usage object. A credit field is \<open>None\<close> when its key is missing, else the
  JSON value under it (\<open>null\<close> or an integer); \<open>resets_at\<close> is \<open>None\<close> when the key
  is missing or \<open>null\<close>, which \<open>usage.get("resets_at", None)\<close> does not tell apart.
\<close>

record usage =
  credits_remaining :: "int option option"
  credits_limit :: "int option option"
  credits_used :: "int option option"
  resets_at :: "string option"

text \<open>\<open>usage.get(key, "N/A")\<close> as the f-string renders it.\<close>

definition shown :: "int option option \<Rightarrow> string" where
  "shown f = (case f of None \<Rightarrow> ''N/A'' | Some None \<Rightarrow> ''None'' | Some (Some n) \<Rightarrow> str_int n)"

text \<open>\<open>resets_at.replace("Z", "")\<close>.\<close>

definition replace_Z :: "string \<Rightarrow> string" where
  "replace_Z s = filter (\<lambda>c. c \<noteq> CHR ''Z'') s"

definition reset_str_of :: "tzenv \<Rightarrow> string option \<Rightarrow> error + string" where
  "reset_str_of env resets =
     (case resets of
        None \<Rightarrow> Inr ''Unknown''
      | Some s \<Rightarrow>
          if s = [] then Inr ''Unknown''
          else
            (case fromisoformat (replace_Z s) of
               Inl e \<Rightarrow> Inl e
             | Inr utc_time \<Rightarrow>
                 (let local_time = astimezone env utc_time
                  in Inr (strftime_dbHMZ local_time))))"

definition usage_text :: "string \<Rightarrow> string \<Rightarrow> string \<Rightarrow> string \<Rightarrow> string" where
  "usage_text used remaining limit reset_str =
     ''**API Usage**'' @ [CHR 0x0A, CHR 0x0A]
     @ ''- Credits used: **'' @ used @ ''**'' @ [CHR 0x0A]
     @ ''- Credits remaining: **'' @ remaining @ '' / '' @ limit @ ''**'' @ [CHR 0x0A]
     @ ''- Resets at: **'' @ reset_str @ ''**''"

definition tab_overview :: "tzenv \<Rightarrow> usage response \<Rightarrow> error + ui list" where
  "tab_overview env r =
     (if status_code r = 200 then
        (let u = json r;
             remaining = shown (credits_remaining u);
             limit = shown (credits_limit u);
             used = shown (credits_used u)
         in case reset_str_of env (resets_at u) of
              Inl e \<Rightarrow> Inl e
            | Inr reset_str \<Rightarrow>
                Inr [Subheader ''Welcome to Zeus Forecast Dashboard'',
                     Success (usage_text used remaining limit reset_str)])
      else
        Inr [Subheader ''Welcome to Zeus Forecast Dashboard'',
             Warning (''Could not fetch API usage (status '' @ str_int (status_code r) @ '')'')])"

text \<open>
  The script from top to bottom: it stops without a key, else runs the five tabs in
  order. An exception ends the run: the result is what the tabs before the raising
  one have shown, and the exception. The title, the sidebar widgets and the
  introductory text of the overview are left out.
\<close>

fun run_tabs :: "(error + ui list) list \<Rightarrow> ui list \<times> error option" where
  "run_tabs [] = ([], None)"
| "run_tabs (Inl e # rest) = ([], Some e)"
| "run_tabs (Inr out # rest) = (case run_tabs rest of (outs, res) \<Rightarrow> (out @ outs, res))"

definition app ::
  "tzenv \<Rightarrow> (request \<Rightarrow> forecast response) \<Rightarrow> usage response \<Rightarrow> inputs \<Rightarrow> ui list \<times> error option" where
  "app env http_get usage_r inp =
     (if api_key inp = [] then
        ([Warning ''Please enter your API key in the sidebar to load data.''], None)
      else
        run_tabs [tab_overview env usage_r,
                  tab_temperature env http_get inp,
                  tab_humidity env http_get inp,
                  tab_precipitation env http_get inp,
                  tab_wind env http_get inp])"

section \<open>Properties\<close>

subsection \<open>Numeric primitives\<close>




subsection \<open>Unit conversions\<close>

text \<open>
  C4: the temperature conversion keeps the length of the sequence, maps a value \<open>k\<close> at
  any position to \<open>k - 273.15\<close> at the same position and \<open>None\<close> to \<open>None\<close>;
  273.15 K becomes 0.
\<close>

theorem temps_c_of_correct:
  "length (temps_c_of xs) = length xs
   \<and> (\<forall>i < length xs. temps_c_of xs ! i = (case xs ! i of None \<Rightarrow> None | Some k \<Rightarrow> Some (k - 273.15)))
   \<and> temps_c_of [Some 273.15] = [Some 0]"
proof -
  have "temps_c_of [Some 273.15] = [Some 0]" by (simp add: temps_c_of_def del: not_None_eq)
  moreover have "\<forall>i < length xs. temps_c_of xs ! i = (case xs ! i of None \<Rightarrow> None | Some k \<Rightarrow> Some (k - 273.15))"
    by (auto simp: temps_c_of_def split: option.splits)
  moreover have "length (temps_c_of xs) = length xs" by (simp add: temps_c_of_def del: not_None_eq)
  ultimately show ?thesis by blast
qed

theorem temps_c_of_correct_witness:
  "length (temps_c_of [Some 273.15, None, Some 300]) = 3
   \<and> temps_c_of [Some 273.15, None, Some 300] ! 1 = None
   \<and> temps_c_of [Some 273.15, None, Some 300] ! 2 = Some 26.85"
  using temps_c_of_correct [of "[Some 273.15, None, Some 300]"] by (simp add: All_less_Suc eval_nat_numeral)

text \<open>
  C5: the precipitation conversion maps a value in metres to a thousand times the value,
  position by position, and \<open>None\<close> to \<open>None\<close>; 0.001 m becomes 1 mm.
\<close>

theorem vals_mm_of_correct:
  "length (vals_mm_of xs) = length xs
   \<and> (\<forall>i < length xs. vals_mm_of xs ! i = (case xs ! i of None \<Rightarrow> None | Some x \<Rightarrow> Some (x * 1000)))
   \<and> vals_mm_of [Some 0.001] = [Some 1]"
proof -
  have "vals_mm_of [Some 0.001] = [Some 1]" by (simp add: vals_mm_of_def del: not_None_eq)
  moreover have "\<forall>i < length xs. vals_mm_of xs ! i = (case xs ! i of None \<Rightarrow> None | Some x \<Rightarrow> Some (x * 1000))"
    by (auto simp: vals_mm_of_def split: option.splits)
  moreover have "length (vals_mm_of xs) = length xs" by (simp add: vals_mm_of_def)
  ultimately show ?thesis by blast
qed

theorem vals_mm_of_correct_witness:
  "length (vals_mm_of [None, Some 0.001, Some 0.0025]) = 3
   \<and> vals_mm_of [None, Some 0.001, Some 0.0025] ! 0 = None
   \<and> vals_mm_of [None, Some 0.001, Some 0.0025] ! 2 = Some 2.5"
  using vals_mm_of_correct [of "[None, Some 0.001, Some 0.0025]"] by (simp add: All_less_Suc eval_nat_numeral)


subsection \<open>Bounds for \<open>arctan\<close> and \<open>pi\<close> from the alternating series\<close>

lemma arctan_partial_sums:
  fixes x :: real
  assumes "0 < x" "x \<le> 1"
  shows "(\<Sum>k<2 * n. (- 1) ^ k * (1 / real (k * 2 + 1) * x ^ (k * 2 + 1))) \<le> arctan x"
    and "arctan x \<le> (\<Sum>k<2 * n + 1. (- 1) ^ k * (1 / real (k * 2 + 1) * x ^ (k * 2 + 1)))"
proof -
  have ax: "\<bar>x\<bar> \<le> 1" using assms by simp
  have pos: "0 < 1 / real (0 * 2 + 1) * x ^ (0 * 2 + 1)" using assms by simp
  from summable_Leibniz(2) [OF zeroseq_arctan_series [OF ax] monoseq_arctan_series [OF ax]] pos
  have "(\<Sum>k. (- 1) ^ k * (1 / real (k * 2 + 1) * x ^ (k * 2 + 1)))
          \<in> {\<Sum>k<2 * n. (- 1) ^ k * (1 / real (k * 2 + 1) * x ^ (k * 2 + 1)) ..
             \<Sum>k<2 * n + 1. (- 1) ^ k * (1 / real (k * 2 + 1) * x ^ (k * 2 + 1))}"
    by blast
  then show "(\<Sum>k<2 * n. (- 1) ^ k * (1 / real (k * 2 + 1) * x ^ (k * 2 + 1))) \<le> arctan x"
    and "arctan x \<le> (\<Sum>k<2 * n + 1. (- 1) ^ k * (1 / real (k * 2 + 1) * x ^ (k * 2 + 1)))"
    using arctan_series [OF ax] by simp_all
qed

lemma arctan_third_bounds: "321745 / 1000000 < arctan (1 / 3 :: real)" "arctan (1 / 3 :: real) < 32176 / 100000"
  using arctan_partial_sums(1) [of "1 / 3" 2] arctan_partial_sums(2) [of "1 / 3" 2]
  by (simp_all add: eval_nat_numeral)

lemma arctan_fifth_bounds: "19739 / 100000 < arctan (1 / 5 :: real)" "arctan (1 / 5 :: real) < 1974 / 10000"
  using arctan_partial_sums(1) [of "1 / 5" 2] arctan_partial_sums(2) [of "1 / 5" 1]
  by (simp_all add: eval_nat_numeral)

lemma arctan_239_bounds: "4184 / 1000000 < arctan (1 / 239 :: real)" "arctan (1 / 239 :: real) < 4185 / 1000000"
  using arctan_partial_sums(1) [of "1 / 239" 1] arctan_partial_sums(2) [of "1 / 239" 0]
  by (simp_all add: eval_nat_numeral)

lemma pi_bounds: "3141 / 1000 < pi" "pi < 3142 / 1000"
  using machin arctan_fifth_bounds arctan_239_bounds by linarith+

lemma arctan_three_quarters: "arctan (3 / 4 :: real) = 2 * arctan (1 / 3)"
  using arctan_double [of "1 / 3 :: real"] by (simp add: power2_eq_square)

lemma degrees_arctan_three_quarters:
  "1843 / 50 < degrees (arctan (3 / 4))" "degrees (arctan (3 / 4)) < 922 / 25"
proof -
  have a: "64349 / 100000 < arctan (3 / 4 :: real)" "arctan (3 / 4 :: real) < 64352 / 100000"
    using arctan_third_bounds by (simp_all add: arctan_three_quarters)
  have "1843 / 50 * pi < 180 * arctan (3 / 4)" "180 * arctan (3 / 4) < 922 / 25 * pi"
    using a pi_bounds by linarith+
  then show "1843 / 50 < degrees (arctan (3 / 4))" "degrees (arctan (3 / 4)) < 922 / 25"
    by (simp_all add: degrees_def field_simps)
qed

subsection \<open>\<open>atan2\<close> is the angle of the point\<close>

text \<open>
  The case distinction that defines \<open>atan2\<close> gives the polar angle: it lies in
  \<open>(-pi, pi]\<close>, and the radius times its cosine and sine are the two coordinates.
  For the wind, \<open>atan2 u v\<close> is the bearing, clockwise from North, the air moves to.
\<close>

lemma sqrt_sum_squares_factor:
  fixes x y :: real
  assumes "x \<noteq> 0"
  shows "sqrt (x\<^sup>2 + y\<^sup>2) = \<bar>x\<bar> * sqrt (1 + (y / x)\<^sup>2)"
proof -
  have "x\<^sup>2 + y\<^sup>2 = x\<^sup>2 * (1 + (y / x)\<^sup>2)"
    using assms by (simp add: field_simps power2_eq_square)
  then show ?thesis by (simp add: real_sqrt_mult)
qed

lemma atan2_range: "- pi < atan2 y x \<and> atan2 y x \<le> pi"
proof -
  have "- (pi / 2) < arctan (y / x)" "arctan (y / x) < pi / 2"
    by (rule arctan_lbound, rule arctan_ubound)
  moreover have "x < 0 \<Longrightarrow> 0 \<le> y \<Longrightarrow> arctan (y / x) \<le> 0"
    by (simp add: divide_nonneg_neg arctan_le_zero_iff)
  moreover have "x < 0 \<Longrightarrow> y < 0 \<Longrightarrow> 0 < arctan (y / x)"
    by (simp add: divide_neg_neg)
  moreover have "0 < pi" by simp
  ultimately show ?thesis unfolding atan2_def by (auto; linarith)
qed

lemma atan2_polar:
  "sqrt (x\<^sup>2 + y\<^sup>2) * cos (atan2 y x) = x \<and> sqrt (x\<^sup>2 + y\<^sup>2) * sin (atan2 y x) = y"
proof (cases "x = 0")
  case True
  then show ?thesis by (simp add: atan2_def)
next
  case False
  have s: "sqrt (1 + (y / x)\<^sup>2) \<noteq> 0"
    by (metis add_nonneg_eq_0_iff real_sqrt_eq_zero_cancel_iff zero_le_power2 zero_neq_one zero_le_one)
  have c: "sqrt (x\<^sup>2 + y\<^sup>2) * cos (arctan (y / x)) = \<bar>x\<bar>"
    using s by (simp add: sqrt_sum_squares_factor [OF False] cos_arctan)
  have "sqrt (x\<^sup>2 + y\<^sup>2) * sin (arctan (y / x)) = \<bar>x\<bar> * (y / x)"
    using s by (simp add: sqrt_sum_squares_factor [OF False] sin_arctan)
  with False c show ?thesis
    by (auto simp: atan2_def abs_if)
qed

subsection \<open>Wind speed and direction\<close>


lemma wind_speed_direction_eq:
  "wind_speed_direction (Some u) (Some v) =
     Inr (sqrt (u\<^sup>2 + v\<^sup>2) * 1.94384, py_fmod (degrees (atan2 u v) + 180) 360)"
  by (simp add: Let_def)

lemma py_fmod_id: "0 \<le> x \<Longrightarrow> x < m \<Longrightarrow> py_fmod x m = x"
proof -
  assume "0 \<le> x" "x < m"
  then have "\<lfloor>x / m\<rfloor> = 0" by (simp add: floor_eq_iff)
  then show ?thesis by (simp add: py_fmod_def)
qed



lemma direction_3_4:
  "wind_speed_direction (Some 3) (Some 4) = Inr (9.7192, degrees (arctan (3 / 4)) + 180)"
proof -
  have "sqrt (3\<^sup>2 + 4\<^sup>2) = (5 :: real)"
    by (rule real_sqrt_unique) simp_all
  moreover have "atan2 3 4 = arctan (3 / 4)" by (simp add: atan2_def)
  moreover have "py_fmod (degrees (arctan (3 / 4)) + 180) 360 = degrees (arctan (3 / 4)) + 180"
    using degrees_arctan_three_quarters by (intro py_fmod_id) linarith+
  ultimately show ?thesis by (simp add: wind_speed_direction_eq)
qed

text \<open>
  C1, as stated, fails: \<open>wind_speed_direction(3, 4)\<close> has speed 9.7192 kt, not about
  8.66, and a direction below 217 degrees, not about 323.13; \<open>u = 0, v = 1\<close>
  gives 180 degrees, not 0, and \<open>u = 1, v = 0\<close> gives 270 degrees, not 90.
\<close>

theorem wind_known_pairs_counterexample:
  "wind_speed_direction (Some 3) (Some 4) = Inr (9.7192, degrees (arctan (3 / 4)) + 180)
   \<and> degrees (arctan (3 / 4)) + 180 < 217
   \<and> wind_speed_direction (Some 0) (Some 1) = Inr (1.94384, 180)
   \<and> wind_speed_direction (Some 1) (Some 0) = Inr (1.94384, 270)"
proof -
  have "wind_speed_direction (Some 0) (Some 1) = Inr (1.94384, 180)"
    by (simp add: atan2_def degrees_def py_fmod_def)
  moreover have "wind_speed_direction (Some 1) (Some 0) = Inr (1.94384, 270)"
    by (simp add: atan2_def degrees_def py_fmod_def)
  moreover have "degrees (arctan (3 / 4)) + 180 < 217"
    using degrees_arctan_three_quarters(2) by linarith
  ultimately show ?thesis using direction_3_4 by blast
qed

text \<open>
  C1, amended: \<open>wind_speed_direction(3, 4)\<close> returns a speed of about 9.72 kt and a
  direction of about 216.87 degrees; \<open>u = 0, v = 1\<close> (air moving north, wind from the
  South) yields 180 degrees and \<open>u = 1, v = 0\<close> (wind from the West) yields 270 degrees.
\<close>

theorem wind_known_pairs:
  "(\<exists>s d. wind_speed_direction (Some 3) (Some 4) = Inr (s, d)
        \<and> \<bar>s - 9.72\<bar> < 0.01 \<and> \<bar>d - 216.87\<bar> < 0.01)
   \<and> (\<exists>s. wind_speed_direction (Some 0) (Some 1) = Inr (s, 180))
   \<and> (\<exists>s. wind_speed_direction (Some 1) (Some 0) = Inr (s, 270))"
proof -
  have "degrees (arctan (3 / 4)) + 180 - 21687 / 100 < 1 / 100
      \<and> - (degrees (arctan (3 / 4)) + 180 - 21687 / 100) < 1 / 100"
    using degrees_arctan_three_quarters by linarith
  then have "\<bar>degrees (arctan (3 / 4)) + 180 - 21687 / 100\<bar> < 1 / 100"
    by (simp only: abs_less_iff)
  moreover have "(216.87 :: real) = 21687 / 100" "(0.01 :: real) = 1 / 100" by simp_all
  ultimately have "\<bar>degrees (arctan (3 / 4)) + 180 - 216.87\<bar> < 0.01"
    by (simp only:)
  moreover have "\<bar>9.7192 - 9.72 :: real\<bar> < 0.01" by simp
  ultimately have "\<exists>s d. wind_speed_direction (Some 3) (Some 4) = Inr (s, d)
        \<and> \<bar>s - 9.72\<bar> < 0.01 \<and> \<bar>d - 216.87\<bar> < 0.01"
    unfolding direction_3_4 by blast
  moreover have "wind_speed_direction (Some 0) (Some 1) = Inr (1.94384, 180)"
    by (simp add: atan2_def degrees_def py_fmod_def)
  moreover have "wind_speed_direction (Some 1) (Some 0) = Inr (1.94384, 270)"
    by (simp add: atan2_def degrees_def py_fmod_def)
  ultimately show ?thesis by blast
qed

subsection \<open>Failed requests and empty series\<close>

lemma fetch_forecast_failed:
  "status_code (http_get (forecast_request inp var)) \<noteq> 200 \<Longrightarrow>
   fetch_forecast http_get inp var = (None, [Error (failure_text (http_get (forecast_request inp var)))])"
  by (simp add: fetch_forecast_def)

lemma fetch_forecast_ok:
  "status_code (http_get (forecast_request inp var)) = 200 \<Longrightarrow>
   fetch_forecast http_get inp var = (Some (json (http_get (forecast_request inp var))), [])"
  by (simp add: fetch_forecast_def)

lemma plot_time_series_empty:
  "tms = [] \<or> vals = [] \<Longrightarrow>
   plot_time_series env tms vals ylabel = Inr ([Warning ''No data available to plot.''], [], [])"
  by (simp add: plot_time_series_def)

lemma tab_temperature_failed:
  "status_code (http_get (forecast_request inp ''2m_temperature'')) \<noteq> 200 \<Longrightarrow>
   tab_temperature env http_get inp =
     Inr [Subheader ''Temperature Forecast'',
          Error (failure_text (http_get (forecast_request inp ''2m_temperature'')))]"
  by (simp add: tab_temperature_def fetch_forecast_failed)

lemma tab_humidity_failed:
  "status_code (http_get (forecast_request inp ''relative_humidity_2m'')) \<noteq> 200 \<Longrightarrow>
   tab_humidity env http_get inp =
     Inr [Subheader ''Humidity Forecast'',
          Error (failure_text (http_get (forecast_request inp ''relative_humidity_2m'')))]"
  by (simp add: tab_humidity_def fetch_forecast_failed)

lemma tab_precipitation_failed:
  "status_code (http_get (forecast_request inp ''total_precipitation'')) \<noteq> 200 \<Longrightarrow>
   tab_precipitation env http_get inp =
     Inr [Subheader ''Precipitation Forecast'',
          Error (failure_text (http_get (forecast_request inp ''total_precipitation'')))]"
  by (simp add: tab_precipitation_def fetch_forecast_failed)

lemma tab_wind_failed:
  "status_code (http_get (forecast_request inp u_var)) \<noteq> 200
     \<or> status_code (http_get (forecast_request inp v_var)) \<noteq> 200 \<Longrightarrow>
   tab_wind env http_get inp =
     Inr (Subheader ''Wind Forecast (100 m AGL)''
          # snd (fetch_forecast http_get inp u_var) @ snd (fetch_forecast http_get inp v_var))"
  by (auto simp: tab_wind_def fetch_forecast_def Let_def)

lemma tab_temperature_no_data:
  "status_code (http_get (forecast_request inp ''2m_temperature'')) = 200 \<Longrightarrow>
   get_time (json (http_get (forecast_request inp ''2m_temperature''))) = []
     \<or> get_series (json (http_get (forecast_request inp ''2m_temperature''))) ''2m_temperature'' = [] \<Longrightarrow>
   tab_temperature env http_get inp =
     Inr [Subheader ''Temperature Forecast'', Warning ''No data available to plot.'',
          Info ''Temperature is at 2 m AGL and displayed in C.'']"
  by (auto simp: tab_temperature_def fetch_forecast_ok plot_time_series_def temps_c_of_def
      latest_line_def Let_def)

lemma tab_humidity_no_data:
  "status_code (http_get (forecast_request inp ''relative_humidity_2m'')) = 200 \<Longrightarrow>
   get_time (json (http_get (forecast_request inp ''relative_humidity_2m''))) = []
     \<or> get_series (json (http_get (forecast_request inp ''relative_humidity_2m''))) ''relative_humidity_2m'' = [] \<Longrightarrow>
   tab_humidity env http_get inp =
     Inr [Subheader ''Humidity Forecast'', Warning ''No data available to plot.'',
          Info ''Humidity is at 2 m AGL and displayed in %.'']"
  by (auto simp: tab_humidity_def fetch_forecast_ok plot_time_series_def latest_line_def Let_def)

lemma tab_precipitation_no_data:
  "status_code (http_get (forecast_request inp ''total_precipitation'')) = 200 \<Longrightarrow>
   get_time (json (http_get (forecast_request inp ''total_precipitation''))) = []
     \<or> get_series (json (http_get (forecast_request inp ''total_precipitation''))) ''total_precipitation'' = [] \<Longrightarrow>
   tab_precipitation env http_get inp =
     Inr [Subheader ''Precipitation Forecast'', Warning ''No data available to plot.'',
          Info ''Precipitation is shown as total precipitation in millimetres (mm).'']"
  by (auto simp: tab_precipitation_def fetch_forecast_ok plot_time_series_def vals_mm_of_def
      latest_line_def Let_def)

lemma tab_wind_no_data:
  "status_code (http_get (forecast_request inp u_var)) = 200 \<Longrightarrow>
   status_code (http_get (forecast_request inp v_var)) = 200 \<Longrightarrow>
   get_series (json (http_get (forecast_request inp u_var))) u_var = []
     \<or> get_series (json (http_get (forecast_request inp v_var))) v_var = [] \<Longrightarrow>
   tab_wind env http_get inp =
     Inr [Subheader ''Wind Forecast (100 m AGL)'', Warning ''No data available to plot.'',
          Info wind_info]"
  by (auto simp: tab_wind_def fetch_forecast_ok plot_time_series_def wind_latest_def Let_def)

text \<open>
  C7: when the status of the response is not 200, \<open>fetch_forecast\<close> shows one error
  whose text holds the status code and the body, and returns no data; the tab then
  shows its heading and the error only, so no chart is drawn (for the wind tab, when
  either of its two requests fails). And \<open>plot_time_series\<close> with no times or no
  values shows the "no data" warning, draws nothing and returns two empty lists, which
  is what each tab shows for a series that is empty or missing in a 200 response.
\<close>

theorem non_200_and_empty_series:
  "(status_code (http_get (forecast_request inp var)) \<noteq> 200 \<longrightarrow>
      fetch_forecast http_get inp var =
        (None, [Error (''API call failed: ''
                       @ str_int (status_code (http_get (forecast_request inp var)))
                       @ '' '' @ body_text (http_get (forecast_request inp var)))]))
   \<and> (status_code (http_get (forecast_request inp ''2m_temperature'')) \<noteq> 200 \<longrightarrow>
        tab_temperature env http_get inp =
          Inr [Subheader ''Temperature Forecast'',
               Error (failure_text (http_get (forecast_request inp ''2m_temperature'')))])
   \<and> (status_code (http_get (forecast_request inp ''relative_humidity_2m'')) \<noteq> 200 \<longrightarrow>
        tab_humidity env http_get inp =
          Inr [Subheader ''Humidity Forecast'',
               Error (failure_text (http_get (forecast_request inp ''relative_humidity_2m'')))])
   \<and> (status_code (http_get (forecast_request inp ''total_precipitation'')) \<noteq> 200 \<longrightarrow>
        tab_precipitation env http_get inp =
          Inr [Subheader ''Precipitation Forecast'',
               Error (failure_text (http_get (forecast_request inp ''total_precipitation'')))])
   \<and> (status_code (http_get (forecast_request inp u_var)) \<noteq> 200
          \<or> status_code (http_get (forecast_request inp v_var)) \<noteq> 200 \<longrightarrow>
        tab_wind env http_get inp =
          Inr (Subheader ''Wind Forecast (100 m AGL)''
               # snd (fetch_forecast http_get inp u_var) @ snd (fetch_forecast http_get inp v_var)))
   \<and> (tms = [] \<or> vals = [] \<longrightarrow>
        plot_time_series env tms vals ylabel = Inr ([Warning ''No data available to plot.''], [], []))
   \<and> (status_code (http_ok (forecast_request inp ''2m_temperature'')) = 200
        \<and> (get_time (json (http_ok (forecast_request inp ''2m_temperature''))) = []
           \<or> get_series (json (http_ok (forecast_request inp ''2m_temperature''))) ''2m_temperature'' = []) \<longrightarrow>
        tab_temperature env http_ok inp =
          Inr [Subheader ''Temperature Forecast'', Warning ''No data available to plot.'',
               Info ''Temperature is at 2 m AGL and displayed in C.''])
   \<and> (status_code (http_ok (forecast_request inp ''relative_humidity_2m'')) = 200
        \<and> (get_time (json (http_ok (forecast_request inp ''relative_humidity_2m''))) = []
           \<or> get_series (json (http_ok (forecast_request inp ''relative_humidity_2m''))) ''relative_humidity_2m'' = []) \<longrightarrow>
        tab_humidity env http_ok inp =
          Inr [Subheader ''Humidity Forecast'', Warning ''No data available to plot.'',
               Info ''Humidity is at 2 m AGL and displayed in %.''])
   \<and> (status_code (http_ok (forecast_request inp ''total_precipitation'')) = 200
        \<and> (get_time (json (http_ok (forecast_request inp ''total_precipitation''))) = []
           \<or> get_series (json (http_ok (forecast_request inp ''total_precipitation''))) ''total_precipitation'' = []) \<longrightarrow>
        tab_precipitation env http_ok inp =
          Inr [Subheader ''Precipitation Forecast'', Warning ''No data available to plot.'',
               Info ''Precipitation is shown as total precipitation in millimetres (mm).''])
   \<and> (status_code (http_ok (forecast_request inp u_var)) = 200
        \<and> status_code (http_ok (forecast_request inp v_var)) = 200
        \<and> (get_series (json (http_ok (forecast_request inp u_var))) u_var = []
           \<or> get_series (json (http_ok (forecast_request inp v_var))) v_var = []) \<longrightarrow>
        tab_wind env http_ok inp =
          Inr [Subheader ''Wind Forecast (100 m AGL)'', Warning ''No data available to plot.'',
               Info wind_info])"
proof -
  have "status_code (http_get (forecast_request inp var)) \<noteq> 200 \<longrightarrow>
      fetch_forecast http_get inp var =
        (None, [Error (''API call failed: ''
                       @ str_int (status_code (http_get (forecast_request inp var)))
                       @ '' '' @ body_text (http_get (forecast_request inp var)))])"
    by (simp add: fetch_forecast_failed failure_text_def)
  then show ?thesis
    using tab_temperature_failed [of http_get inp env] tab_humidity_failed [of http_get inp env]
      tab_precipitation_failed [of http_get inp env] tab_wind_failed [of http_get inp env]
      plot_time_series_empty [of tms vals env ylabel]
      tab_temperature_no_data [of http_ok inp env] tab_humidity_no_data [of http_ok inp env]
      tab_precipitation_no_data [of http_ok inp env] tab_wind_no_data [of http_ok inp env]
    by blast
qed

theorem non_200_and_empty_series_witness:
  "fetch_forecast (\<lambda>q. \<lparr>status_code = 404, body_text = ''Not Found'',
                         json = \<lparr>hourly = \<lparr>time_col = None, series = Map.empty\<rparr>\<rparr>\<rparr>)
     \<lparr>api_key = ''k'', lat = 51.129, lon = 1.308, hours = 6, utcnow = 0\<rparr> ''2m_temperature''
     = (None, [Error ''API call failed: 404 Not Found''])
   \<and> tab_wind \<lparr>local_offset = 0, local_name = ''UTC''\<rparr>
        (\<lambda>q. \<lparr>status_code = 404, body_text = ''Not Found'',
               json = \<lparr>hourly = \<lparr>time_col = None, series = Map.empty\<rparr>\<rparr>\<rparr>)
        \<lparr>api_key = ''k'', lat = 51.129, lon = 1.308, hours = 6, utcnow = 0\<rparr>
     = Inr [Subheader ''Wind Forecast (100 m AGL)'', Error ''API call failed: 404 Not Found'',
            Error ''API call failed: 404 Not Found'']
   \<and> plot_time_series \<lparr>local_offset = 0, local_name = ''UTC''\<rparr> [] [Some 1] ''y''
     = Inr ([Warning ''No data available to plot.''], [], [])
   \<and> tab_humidity \<lparr>local_offset = 0, local_name = ''UTC''\<rparr>
        (\<lambda>q. \<lparr>status_code = 200, body_text = [],
               json = \<lparr>hourly = \<lparr>time_col = None, series = Map.empty\<rparr>\<rparr>\<rparr>)
        \<lparr>api_key = ''k'', lat = 51.129, lon = 1.308, hours = 6, utcnow = 0\<rparr>
     = Inr [Subheader ''Humidity Forecast'', Warning ''No data available to plot.'',
            Info ''Humidity is at 2 m AGL and displayed in %.'']"
  using non_200_and_empty_series
    [where http_get = "\<lambda>q. \<lparr>status_code = 404, body_text = ''Not Found'',
                         json = \<lparr>hourly = \<lparr>time_col = None, series = Map.empty\<rparr>\<rparr>\<rparr>"
       and http_ok = "\<lambda>q. \<lparr>status_code = 200, body_text = [],
               json = \<lparr>hourly = \<lparr>time_col = None, series = Map.empty\<rparr>\<rparr>\<rparr>"
       and inp = "\<lparr>api_key = ''k'', lat = 51.129, lon = 1.308, hours = 6, utcnow = 0\<rparr>"
       and env = "\<lparr>local_offset = 0, local_name = ''UTC''\<rparr>"
       and var = "''2m_temperature''" and tms = "[]" and vals = "[Some 1]" and ylabel = "''y''"]
  by (simp add: fetch_forecast_def failure_text_def str_int_def digits.simps digit_char_def
      get_time_def get_series_def)

subsection \<open>The usage report\<close>





text \<open>
  C9, at the failing input: on a machine one hour east of UTC the reset time
  \<open>2025-01-01T12:00:00Z\<close> is shown as 12:00 local time. Once the \<open>Z\<close> is removed the
  parsed value is naive, and \<open>astimezone()\<close> takes a naive value for local time. The
  instant 12:00 UTC, which the same timestamp with \<open>+00:00\<close> parses to, is 13:00 there.
\<close>

theorem reset_time_not_converted:
  "reset_str_of \<lparr>local_offset = 3600, local_name = ''CET''\<rparr> (Some ''2025-01-01T12:00:00Z'')
     = Inr ''01-Jan 12:00 CET''
   \<and> fromisoformat ''2025-01-01T12:00:00+00:00'' = Inr \<lparr>wall = 1735732800, tz = Some (0, ''UTC'')\<rparr>
   \<and> strftime_dbHMZ (astimezone \<lparr>local_offset = 3600, local_name = ''CET''\<rparr>
                          \<lparr>wall = 1735732800, tz = Some (0, ''UTC'')\<rparr>)
     = ''01-Jan 13:00 CET''"
proof -
  have "fromisoformat ''2025-01-01T12:00:00'' = Inr \<lparr>wall = 1735732800, tz = None\<rparr>"
    by (simp add: fromisoformat_def parse_date_def parse_time_def field_def digit_of_def
        parse_zone_def days_in_month_def days_from_civil_def is_leap_def)
  moreover have "astimezone \<lparr>local_offset = 3600, local_name = ''CET''\<rparr> \<lparr>wall = 1735732800, tz = None\<rparr>
      = \<lparr>wall = 1735732800, tz = Some (3600, ''CET'')\<rparr>"
    by (simp add: astimezone_def)
  moreover have "strftime_dbHMZ \<lparr>wall = 1735732800, tz = Some (3600, ''CET'')\<rparr> = ''01-Jan 12:00 CET''"
    by code_simp
  ultimately have "reset_str_of \<lparr>local_offset = 3600, local_name = ''CET''\<rparr>
      (Some ''2025-01-01T12:00:00Z'') = Inr ''01-Jan 12:00 CET''"
    by (simp add: reset_str_of_def replace_Z_def)
  moreover have "fromisoformat ''2025-01-01T12:00:00+00:00''
      = Inr \<lparr>wall = 1735732800, tz = Some (0, ''UTC'')\<rparr>"
    by (simp add: fromisoformat_def parse_date_def parse_time_def field_def digit_of_def
        parse_zone_def days_in_month_def days_from_civil_def is_leap_def)
  moreover have "astimezone \<lparr>local_offset = 3600, local_name = ''CET''\<rparr>
                          \<lparr>wall = 1735732800, tz = Some (0, ''UTC'')\<rparr>
      = \<lparr>wall = 1735736400, tz = Some (3600, ''CET'')\<rparr>"
    by (simp add: astimezone_def)
  moreover have "strftime_dbHMZ \<lparr>wall = 1735736400, tz = Some (3600, ''CET'')\<rparr> = ''01-Jan 13:00 CET''"
    by code_simp
  ultimately show ?thesis by simp
qed

subsection \<open>Null samples\<close>

lemma local_time_example:
  "local_times_of \<lparr>local_offset = 0, local_name = ''UTC''\<rparr> [''2025-01-01T12:00:00'']
     = Inr [''01-Jan 12:00'']"
proof -
  have "fromisoformat ''2025-01-01T12:00:00'' = Inr \<lparr>wall = 1735732800, tz = None\<rparr>"
    by (simp add: fromisoformat_def parse_date_def parse_time_def field_def digit_of_def
        parse_zone_def days_in_month_def days_from_civil_def is_leap_def)
  moreover have "astimezone \<lparr>local_offset = 0, local_name = ''UTC''\<rparr> \<lparr>wall = 1735732800, tz = None\<rparr>
      = \<lparr>wall = 1735732800, tz = Some (0, ''UTC'')\<rparr>"
    by (simp add: astimezone_def)
  moreover have "strftime_dbHM \<lparr>wall = 1735732800, tz = Some (0, ''UTC'')\<rparr> = ''01-Jan 12:00''"
    by code_simp
  ultimately show ?thesis by simp
qed

text \<open>
  C3, at the failing input: a \<open>null\<close> among the \<open>u\<close> samples makes
  \<open>wind_speed_direction\<close> raise \<open>TypeError\<close>, and the wind tab with it, while the
  temperature comprehension maps the same \<open>null\<close> to \<open>None\<close>. A \<open>null\<close> as the
  last temperature sample raises when the latest value is formatted, and the run ends
  there: the tabs after it show nothing.
\<close>

theorem null_sample_raises:
  "wind_speed_direction None (Some 1) = Inl TypeError
   \<and> tab_wind env
        (\<lambda>q. \<lparr>status_code = 200, body_text = [],
               json = \<lparr>hourly = \<lparr>time_col = Some [''2025-01-01T12:00:00''],
                                 series = [u_var \<mapsto> [None], v_var \<mapsto> [Some 1]]\<rparr>\<rparr>\<rparr>)
        inp = Inl TypeError
   \<and> temps_c_of [None] = [None]
   \<and> tab_temperature \<lparr>local_offset = 0, local_name = ''UTC''\<rparr>
        (\<lambda>q. \<lparr>status_code = 200, body_text = [],
               json = \<lparr>hourly = \<lparr>time_col = Some [''2025-01-01T12:00:00''],
                                 series = [''2m_temperature'' \<mapsto> [None]]\<rparr>\<rparr>\<rparr>)
        inp = Inl TypeError
   \<and> app \<lparr>local_offset = 0, local_name = ''UTC''\<rparr>
        (\<lambda>q. \<lparr>status_code = 200, body_text = [],
               json = \<lparr>hourly = \<lparr>time_col = Some [''2025-01-01T12:00:00''],
                                 series = [''2m_temperature'' \<mapsto> [None]]\<rparr>\<rparr>\<rparr>)
        \<lparr>status_code = 500, body_text = [],
         json = \<lparr>credits_remaining = None, credits_limit = None, credits_used = None,
                  resets_at = None\<rparr>\<rparr>
        \<lparr>api_key = ''k'', lat = 51.129, lon = 1.308, hours = 6, utcnow = 0\<rparr>
     = ([Subheader ''Welcome to Zeus Forecast Dashboard'',
         Warning ''Could not fetch API usage (status 500)''], Some TypeError)"
proof -
  have w: "wind_speed_direction None (Some 1) = Inl TypeError" by simp
  have tw: "tab_wind env
        (\<lambda>q. \<lparr>status_code = 200, body_text = [],
               json = \<lparr>hourly = \<lparr>time_col = Some [''2025-01-01T12:00:00''],
                                 series = [u_var \<mapsto> [None], v_var \<mapsto> [Some 1]]\<rparr>\<rparr>\<rparr>)
        inp = Inl TypeError"
    by (simp add: tab_wind_def fetch_forecast_def get_time_def get_series_def u_var_def v_var_def)
  have c: "temps_c_of [None] = [None]" by (simp add: temps_c_of_def)
  have tt: "tab_temperature \<lparr>local_offset = 0, local_name = ''UTC''\<rparr>
        (\<lambda>q. \<lparr>status_code = 200, body_text = [],
               json = \<lparr>hourly = \<lparr>time_col = Some [''2025-01-01T12:00:00''],
                                 series = [''2m_temperature'' \<mapsto> [None]]\<rparr>\<rparr>\<rparr>)
        inp = Inl TypeError" for inp
    by (simp add: tab_temperature_def fetch_forecast_def get_time_def get_series_def c
        plot_time_series_def local_time_example latest_line_def Let_def
        del: local_times_of.simps)
  have "tab_overview \<lparr>local_offset = 0, local_name = ''UTC''\<rparr>
        \<lparr>status_code = 500, body_text = [],
         json = \<lparr>credits_remaining = None, credits_limit = None, credits_used = None,
                  resets_at = None\<rparr>\<rparr>
      = Inr [Subheader ''Welcome to Zeus Forecast Dashboard'',
             Warning ''Could not fetch API usage (status 500)'']"
    by (simp add: tab_overview_def str_int_def digits.simps digit_char_def)
  with tt have "app \<lparr>local_offset = 0, local_name = ''UTC''\<rparr>
        (\<lambda>q. \<lparr>status_code = 200, body_text = [],
               json = \<lparr>hourly = \<lparr>time_col = Some [''2025-01-01T12:00:00''],
                                 series = [''2m_temperature'' \<mapsto> [None]]\<rparr>\<rparr>\<rparr>)
        \<lparr>status_code = 500, body_text = [],
         json = \<lparr>credits_remaining = None, credits_limit = None, credits_used = None,
                  resets_at = None\<rparr>\<rparr>
        \<lparr>api_key = ''k'', lat = 51.129, lon = 1.308, hours = 6, utcnow = 0\<rparr>
     = ([Subheader ''Welcome to Zeus Forecast Dashboard'',
         Warning ''Could not fetch API usage (status 500)''], Some TypeError)"
    by (simp add: app_def)
  with w tw c tt show ?thesis by blast
qed

end
